theory Spec2Isabelle
  imports Main
begin

section \<open>Nonlocal control (mypyc/irbuild/nonlocalcontrol.py)\<close>

text \<open>
  The module lowers \<open>break\<close>, \<open>continue\<close> and \<open>return\<close> through a chain of
  \<open>NonlocalControl\<close> frames. Every method receives the \<open>IRBuilder\<close> and acts only by
  calling it. The builder class is not part of this module, so the model records each call
  made on the builder, in order, in a log; what the module does is what it appends to the log.
\<close>

subsection \<open>Values, blocks and ops\<close>

text \<open>
  A \<open>Value\<close> is opaque to the module. It is either handed in by the caller (\<open>Given\<close>) or
  is whatever a builder call returned; \<open>Result n\<close> is the object returned by the call at
  position \<open>n\<close> of the log, so two different calls return different objects.
  \<open>Register\<close> is a subclass of \<open>Value\<close> and is not distinguished here.
\<close>

datatype Value = Given nat | Result nat

datatype AssignmentTarget = AssignmentTarget nat

datatype RType = RType nat

text \<open>A \<open>BasicBlock\<close> is an object; the number is its identity.\<close>

datatype BasicBlock = BasicBlock nat

text \<open>
  A source position is an \<open>int\<close>. \<open>NO_TRACEBACK_LINE_NO\<close> is an \<open>int\<close> constant imported
  from \<open>mypyc.ir.ops\<close> whose value is not given in this module, so it is kept as a name.
\<close>

datatype lineno = Line int | NO_TRACEBACK_LINE_NO

text \<open>\<open>Branch.IS_ERROR\<close> is the only branch kind the module uses.\<close>

datatype BranchOp = IS_ERROR

text \<open>The op classes the module constructs, with their constructor arguments in order.\<close>

datatype Op =
    Return Value
  | Goto BasicBlock
  | LoadInt int
  | Assign Value Value
  | Unreachable
  | Branch Value BasicBlock BasicBlock BranchOp

text \<open>The two primitive descriptions imported from \<open>mypyc.primitives.exc_ops\<close>.\<close>

datatype Primitive = set_stop_iteration_value | restore_exc_info_op

text \<open>\<open>ExceptNonlocalControl.saved\<close> is a \<open>Union[Value, AssignmentTarget]\<close>.\<close>

datatype Saved = SavedValue Value | SavedTarget AssignmentTarget

subsection \<open>The builder\<close>

text \<open>One constructor for each builder method the module calls, with its arguments.\<close>

datatype Call =
    Add Op
  | AssignTo AssignmentTarget Value lineno
  | PushErrorHandler "BasicBlock option"
  | PopErrorHandler
  | GotoAndActivate BasicBlock
  | ActivateBlock BasicBlock
  | PrimitiveOp Primitive "Value list" lineno
  | Error string lineno
  | AllocTemp RType
  | Read Saved

text \<open>
  The builder state the module reads or changes: the log of calls; the attributes
  \<open>builder.ret_types\<close> and \<open>builder.fn_info.generator_class.next_label_target\<close>, which the
  module only reads; and the number of \<open>BasicBlock()\<close> objects created so far, from which a
  new block takes its identity.
\<close>

record IRBuilder =
  calls :: "Call list"
  ret_types :: "RType list"
  next_label_target :: AssignmentTarget
  blocks_created :: nat

definition call :: "IRBuilder \<Rightarrow> Call \<Rightarrow> IRBuilder" where
  "call b c = b\<lparr>calls := calls b @ [c]\<rparr>"

text \<open>The value a builder call made now will return.\<close>

definition next_result :: "IRBuilder \<Rightarrow> Value" where
  "next_result b = Result (length (calls b))"

text \<open>\<open>builder.add(op)\<close> returns the op, which is a value.\<close>

definition builder_add :: "IRBuilder \<Rightarrow> Op \<Rightarrow> Value \<times> IRBuilder" where
  "builder_add b op = (next_result b, call b (Add op))"

definition builder_assign :: "IRBuilder \<Rightarrow> AssignmentTarget \<Rightarrow> Value \<Rightarrow> lineno \<Rightarrow> IRBuilder" where
  "builder_assign b target rvalue line = call b (AssignTo target rvalue line)"

definition push_error_handler :: "IRBuilder \<Rightarrow> BasicBlock option \<Rightarrow> IRBuilder" where
  "push_error_handler b handler = call b (PushErrorHandler handler)"

definition pop_error_handler :: "IRBuilder \<Rightarrow> IRBuilder" where
  "pop_error_handler b = call b PopErrorHandler"

definition goto_and_activate :: "IRBuilder \<Rightarrow> BasicBlock \<Rightarrow> IRBuilder" where
  "goto_and_activate b block = call b (GotoAndActivate block)"

definition activate_block :: "IRBuilder \<Rightarrow> BasicBlock \<Rightarrow> IRBuilder" where
  "activate_block b block = call b (ActivateBlock block)"

definition primitive_op :: "IRBuilder \<Rightarrow> Primitive \<Rightarrow> Value list \<Rightarrow> lineno \<Rightarrow> IRBuilder" where
  "primitive_op b desc args line = call b (PrimitiveOp desc args line)"

definition builder_error :: "IRBuilder \<Rightarrow> string \<Rightarrow> lineno \<Rightarrow> IRBuilder" where
  "builder_error b msg line = call b (Error msg line)"

definition alloc_temp :: "IRBuilder \<Rightarrow> RType \<Rightarrow> Value \<times> IRBuilder" where
  "alloc_temp b type = (next_result b, call b (AllocTemp type))"

definition builder_read :: "IRBuilder \<Rightarrow> Saved \<Rightarrow> Value \<times> IRBuilder" where
  "builder_read b item = (next_result b, call b (Read item))"

text \<open>\<open>BasicBlock()\<close>: a new block object.\<close>

definition new_BasicBlock :: "IRBuilder \<Rightarrow> BasicBlock \<times> IRBuilder" where
  "new_BasicBlock b = (BasicBlock (blocks_created b), b\<lparr>blocks_created := Suc (blocks_created b)\<rparr>)"

subsection \<open>Exceptions\<close>

text \<open>
  \<open>assert False, msg\<close> raises \<open>AssertionError(msg)\<close>; \<open>builder.ret_types[-1]\<close> raises
  \<open>IndexError\<close> on an empty list. The builder is mutated in place, so what was emitted before
  a raise stays emitted: a raise carries the builder as it is at that moment.
\<close>

datatype exn = AssertionError string | IndexError

type_synonym 'a result = "(exn \<times> IRBuilder) + 'a"

subsection \<open>The frames\<close>

text \<open>
  The concrete subclasses of \<open>NonlocalControl\<close>, each with the attributes its \<open>__init__\<close>
  sets, in the order of the source. \<open>TryFinallyNonlocalControl.ret_reg\<close> starts as \<open>None\<close>
  and is assigned by \<open>gen_return\<close>; a method therefore returns the frame as it is afterwards,
  together with the builder.
\<close>

datatype NonlocalControl =
    BaseNonlocalControl
  | LoopNonlocalControl NonlocalControl BasicBlock BasicBlock
  | GeneratorNonlocalControl
  | TryFinallyNonlocalControl BasicBlock "Value option"
  | ExceptNonlocalControl NonlocalControl Saved
  | FinallyNonlocalControl NonlocalControl "Value option" Value

text \<open>After a call on \<open>self.outer\<close>, the frame holds the outer frame as that call left it.\<close>

definition with_outer ::
  "(NonlocalControl \<Rightarrow> NonlocalControl) \<Rightarrow> (NonlocalControl \<times> IRBuilder) result
     \<Rightarrow> (NonlocalControl \<times> IRBuilder) result" where
  "with_outer f r = (case r of Inl e \<Rightarrow> Inl e | Inr (outer', b') \<Rightarrow> Inr (f outer', b'))"

text \<open>
  \<open>gen_cleanup\<close> is abstract in \<open>CleanupNonlocalControl\<close> and defined by its two subclasses.
  In \<open>FinallyNonlocalControl\<close>, \<open>if self.ret_reg:\<close> tests an \<open>Optional[Value]\<close>; a value
  object is taken to be true, so the test is whether \<open>ret_reg\<close> is not \<open>None\<close>.
\<close>

fun gen_cleanup :: "NonlocalControl \<Rightarrow> IRBuilder \<Rightarrow> lineno \<Rightarrow> IRBuilder" where
  "gen_cleanup (ExceptNonlocalControl outer saved) b line =
     (let (v, b1) = builder_read b saved
      in primitive_op b1 restore_exc_info_op [v] line)"
| "gen_cleanup (FinallyNonlocalControl outer ret_reg saved) b line =
     (let b3 = (case ret_reg of
                  None \<Rightarrow> b
                | Some r \<Rightarrow>
                    (let (target, b1) = new_BasicBlock b;
                         b2 = snd (builder_add b1 (Branch r target target IS_ERROR))
                     in activate_block b2 target));
          (target, b4) = new_BasicBlock b3;
          (cleanup, b5) = new_BasicBlock b4;
          b6 = snd (builder_add b5 (Branch saved target cleanup IS_ERROR));
          b7 = activate_block b6 cleanup;
          b8 = primitive_op b7 restore_exc_info_op [saved] line
      in goto_and_activate b8 target)"

text \<open>
  The methods \<open>gen_break\<close> and \<open>gen_continue\<close> of \<open>BaseNonlocalControl\<close>.
  \<open>GeneratorNonlocalControl\<close> is a subclass of \<open>BaseNonlocalControl\<close> that defines only
  \<open>gen_return\<close>, so method lookup on it finds these two.
\<close>

definition BaseNonlocalControl_gen_break ::
  "NonlocalControl \<Rightarrow> IRBuilder \<Rightarrow> lineno \<Rightarrow> (NonlocalControl \<times> IRBuilder) result" where
  "BaseNonlocalControl_gen_break self b line = Inl (AssertionError ''break outside of loop'', b)"

definition BaseNonlocalControl_gen_continue ::
  "NonlocalControl \<Rightarrow> IRBuilder \<Rightarrow> lineno \<Rightarrow> (NonlocalControl \<times> IRBuilder) result" where
  "BaseNonlocalControl_gen_continue self b line =
     Inl (AssertionError ''continue outside of loop'', b)"

fun gen_break :: "NonlocalControl \<Rightarrow> IRBuilder \<Rightarrow> lineno \<Rightarrow> (NonlocalControl \<times> IRBuilder) result" where
  "gen_break BaseNonlocalControl b line = BaseNonlocalControl_gen_break BaseNonlocalControl b line"
| "gen_break (LoopNonlocalControl outer continue_block break_block) b line =
     Inr (LoopNonlocalControl outer continue_block break_block,
          snd (builder_add b (Goto break_block)))"
| "gen_break GeneratorNonlocalControl b line =
     BaseNonlocalControl_gen_break GeneratorNonlocalControl b line"
| "gen_break (TryFinallyNonlocalControl target ret_reg) b line =
     Inr (TryFinallyNonlocalControl target ret_reg,
          builder_error b ''break inside try/finally block is unimplemented'' line)"
| "gen_break (ExceptNonlocalControl outer saved) b line =
     with_outer (\<lambda>outer'. ExceptNonlocalControl outer' saved)
       (gen_break outer (gen_cleanup (ExceptNonlocalControl outer saved) b line) line)"
| "gen_break (FinallyNonlocalControl outer ret_reg saved) b line =
     with_outer (\<lambda>outer'. FinallyNonlocalControl outer' ret_reg saved)
       (gen_break outer (gen_cleanup (FinallyNonlocalControl outer ret_reg saved) b line) line)"

fun gen_continue :: "NonlocalControl \<Rightarrow> IRBuilder \<Rightarrow> lineno \<Rightarrow> (NonlocalControl \<times> IRBuilder) result" where
  "gen_continue BaseNonlocalControl b line =
     BaseNonlocalControl_gen_continue BaseNonlocalControl b line"
| "gen_continue (LoopNonlocalControl outer continue_block break_block) b line =
     Inr (LoopNonlocalControl outer continue_block break_block,
          snd (builder_add b (Goto continue_block)))"
| "gen_continue GeneratorNonlocalControl b line =
     BaseNonlocalControl_gen_continue GeneratorNonlocalControl b line"
| "gen_continue (TryFinallyNonlocalControl target ret_reg) b line =
     Inr (TryFinallyNonlocalControl target ret_reg,
          builder_error b ''continue inside try/finally block is unimplemented'' line)"
| "gen_continue (ExceptNonlocalControl outer saved) b line =
     with_outer (\<lambda>outer'. ExceptNonlocalControl outer' saved)
       (gen_continue outer (gen_cleanup (ExceptNonlocalControl outer saved) b line) line)"
| "gen_continue (FinallyNonlocalControl outer ret_reg saved) b line =
     with_outer (\<lambda>outer'. FinallyNonlocalControl outer' ret_reg saved)
       (gen_continue outer (gen_cleanup (FinallyNonlocalControl outer ret_reg saved) b line) line)"

fun gen_return ::
  "NonlocalControl \<Rightarrow> IRBuilder \<Rightarrow> Value \<Rightarrow> lineno \<Rightarrow> (NonlocalControl \<times> IRBuilder) result" where
  "gen_return BaseNonlocalControl b val line =
     Inr (BaseNonlocalControl, snd (builder_add b (Return val)))"
| "gen_return (LoopNonlocalControl outer continue_block break_block) b val line =
     with_outer (\<lambda>outer'. LoopNonlocalControl outer' continue_block break_block)
       (gen_return outer b val line)"
| "gen_return GeneratorNonlocalControl b val line =
     (let (minus_one, b1) = builder_add b (LoadInt (- 1));
          b2 = builder_assign b1 (next_label_target b1) minus_one line;
          b3 = push_error_handler b2 None;
          (block, b4) = new_BasicBlock b3;
          b5 = goto_and_activate b4 block;
          b6 = primitive_op b5 set_stop_iteration_value [val] NO_TRACEBACK_LINE_NO;
          b7 = snd (builder_add b6 Unreachable)
      in Inr (GeneratorNonlocalControl, pop_error_handler b7))"
| "gen_return (TryFinallyNonlocalControl target ret_reg) b val line =
     (case ret_reg of
        None \<Rightarrow>
          (case ret_types b of
             [] \<Rightarrow> Inl (IndexError, b)
           | t # ts \<Rightarrow>
               (let (r, b1) = alloc_temp b (last (t # ts));
                    b2 = snd (builder_add b1 (Assign r val));
                    b3 = snd (builder_add b2 (Goto target))
                in Inr (TryFinallyNonlocalControl target (Some r), b3)))
      | Some r \<Rightarrow>
          (let b2 = snd (builder_add b (Assign r val));
               b3 = snd (builder_add b2 (Goto target))
           in Inr (TryFinallyNonlocalControl target (Some r), b3)))"
| "gen_return (ExceptNonlocalControl outer saved) b val line =
     with_outer (\<lambda>outer'. ExceptNonlocalControl outer' saved)
       (gen_return outer (gen_cleanup (ExceptNonlocalControl outer saved) b line) val line)"
| "gen_return (FinallyNonlocalControl outer ret_reg saved) b val line =
     with_outer (\<lambda>outer'. FinallyNonlocalControl outer' ret_reg saved)
       (gen_return outer (gen_cleanup (FinallyNonlocalControl outer ret_reg saved) b line) val line)"

subsection \<open>What a run emitted\<close>

text \<open>The calls made on the builder between the state \<open>b\<close> and the later state \<open>b'\<close>.\<close>

definition emitted :: "IRBuilder \<Rightarrow> IRBuilder \<Rightarrow> Call list" where
  "emitted b b' = drop (length (calls b)) (calls b')"

text \<open>What a method call did to the builder, and the exception it raised, if any.\<close>

definition effect :: "(NonlocalControl \<times> IRBuilder) result \<Rightarrow> exn option \<times> IRBuilder" where
  "effect r = (case r of Inl (e, b) \<Rightarrow> (Some e, b) | Inr (self, b) \<Rightarrow> (None, b))"

fun is_restore :: "Call \<Rightarrow> bool" where
  "is_restore (PrimitiveOp desc args line) = (desc = restore_exc_info_op)"
| "is_restore _ = False"

fun is_read :: "Call \<Rightarrow> bool" where
  "is_read (Read item) = True"
| "is_read _ = False"

fun is_alloc_temp :: "Call \<Rightarrow> bool" where
  "is_alloc_temp (AllocTemp type) = True"
| "is_alloc_temp _ = False"

fun is_branch :: "Call \<Rightarrow> bool" where
  "is_branch (Add (Branch v true_label false_label kind)) = True"
| "is_branch _ = False"

fun is_error_branch_on :: "Value \<Rightarrow> Call \<Rightarrow> bool" where
  "is_error_branch_on r (Add (Branch v true_label false_label kind)) = (v = r \<and> kind = IS_ERROR)"
| "is_error_branch_on r _ = False"

subsection \<open>Stacks of cleanup frames\<close>

text \<open>
  The two subclasses of \<open>CleanupNonlocalControl\<close> without their \<open>outer\<close>, so that a stack
  of them can be placed over any frame. The head of the list is the innermost frame, the one
  a \<open>break\<close>, \<open>continue\<close> or \<open>return\<close> reaches first.
\<close>

datatype Cleanup = ExceptCleanup Saved | FinallyCleanup "Value option" Value

fun stack_on :: "Cleanup \<Rightarrow> NonlocalControl \<Rightarrow> NonlocalControl" where
  "stack_on (ExceptCleanup saved) outer = ExceptNonlocalControl outer saved"
| "stack_on (FinallyCleanup ret_reg saved) outer = FinallyNonlocalControl outer ret_reg saved"

fun wrap :: "Cleanup list \<Rightarrow> NonlocalControl \<Rightarrow> NonlocalControl" where
  "wrap [] inner = inner"
| "wrap (w # ws) inner = stack_on w (wrap ws inner)"

text \<open>Running \<open>gen_cleanup\<close> of each frame of the stack in turn, innermost first.\<close>

fun cleanups :: "Cleanup list \<Rightarrow> NonlocalControl \<Rightarrow> IRBuilder \<Rightarrow> lineno \<Rightarrow> IRBuilder" where
  "cleanups [] inner b line = b"
| "cleanups (w # ws) inner b line =
     cleanups ws inner (gen_cleanup (wrap (w # ws) inner) b line) line"

text \<open>What each of these \<open>gen_cleanup\<close> calls emitted, one entry for each frame, in that order.\<close>

fun cleanup_log :: "Cleanup list \<Rightarrow> NonlocalControl \<Rightarrow> IRBuilder \<Rightarrow> lineno \<Rightarrow> Call list list" where
  "cleanup_log [] inner b line = []"
| "cleanup_log (w # ws) inner b line =
     emitted b (gen_cleanup (wrap (w # ws) inner) b line)
       # cleanup_log ws inner (gen_cleanup (wrap (w # ws) inner) b line) line"

subsection \<open>Several returns through one frame\<close>

text \<open>
  \<open>gen_return\<close> called once for each value of the list on the same frame object, the frame
  and the builder carried from one call to the next; a raise ends the run.
\<close>

fun gen_returns ::
  "NonlocalControl \<Rightarrow> IRBuilder \<Rightarrow> Value list \<Rightarrow> lineno \<Rightarrow> (NonlocalControl \<times> IRBuilder) result" where
  "gen_returns self b [] line = Inr (self, b)"
| "gen_returns self b (v # vs) line =
     (case gen_return self b v line of
        Inl e \<Rightarrow> Inl e
      | Inr (self', b') \<Rightarrow> gen_returns self' b' vs line)"

subsection \<open>The error-handler context\<close>

text \<open>
  Modelled from the spec: the builder's \<open>push_error_handler\<close> and \<open>pop_error_handler\<close>, which
  belong to the builder class and are not in this module. The spec describes them as pushing
  and popping the active error-handling context (the enclosing handler, or none). The context
  is a stack whose head is the active handler; \<open>pop\<close> on an empty stack has no result.
\<close>

fun handler_step :: "Call \<Rightarrow> BasicBlock option list \<Rightarrow> BasicBlock option list option" where
  "handler_step (PushErrorHandler h) hs = Some (h # hs)"
| "handler_step PopErrorHandler [] = None"
| "handler_step PopErrorHandler (h # hs) = Some hs"
| "handler_step _ hs = Some hs"

fun handlers_after :: "Call list \<Rightarrow> BasicBlock option list \<Rightarrow> BasicBlock option list option" where
  "handlers_after [] hs = Some hs"
| "handlers_after (c # cs) hs =
     (case handler_step c hs of None \<Rightarrow> None | Some hs' \<Rightarrow> handlers_after cs hs')"

section \<open>Properties\<close>

lemmas builder_defs =
  call_def next_result_def builder_add_def builder_assign_def push_error_handler_def
  pop_error_handler_def goto_and_activate_def activate_block_def primitive_op_def
  builder_error_def alloc_temp_def builder_read_def new_BasicBlock_def

subsection \<open>Base and generator frames\<close>

text \<open>
  C10. \<open>GeneratorNonlocalControl\<close> overrides only \<open>gen_return\<close>. Its \<open>gen_break\<close> and
  \<open>gen_continue\<close> are those of \<open>BaseNonlocalControl\<close>: they raise the assertion failures
  ``break outside of loop'' and ``continue outside of loop'' and call nothing on the builder,
  exactly as the plain base frame does. Its \<open>gen_return\<close> does not do what the base frame's
  does.
\<close>

theorem generator_inherits_break_continue:
  "gen_break GeneratorNonlocalControl b line = Inl (AssertionError ''break outside of loop'', b)
   \<and> gen_continue GeneratorNonlocalControl b line
       = Inl (AssertionError ''continue outside of loop'', b)
   \<and> gen_break GeneratorNonlocalControl b line = gen_break BaseNonlocalControl b line
   \<and> gen_continue GeneratorNonlocalControl b line = gen_continue BaseNonlocalControl b line
   \<and> calls (snd (effect (gen_return GeneratorNonlocalControl b v line)))
       \<noteq> calls (snd (effect (gen_return BaseNonlocalControl b v line)))"
  by (simp add: BaseNonlocalControl_gen_break_def BaseNonlocalControl_gen_continue_def
      effect_def builder_defs Let_def)

text \<open>
  C2 (as stated, refuted). The claim has \<open>gen_break\<close> on the base frame report an error
  through the builder and carry on. On a builder that has been called not at all, the method
  raises \<open>AssertionError\<close> and the builder has still been called not at all: no error was
  reported through it.
\<close>

theorem base_break_reports_counterexample:
  "gen_break BaseNonlocalControl
     \<lparr>calls = [], ret_types = [RType 0], next_label_target = AssignmentTarget 0,
      blocks_created = 0\<rparr> (Line 3)
   = Inl (AssertionError ''break outside of loop'',
          \<lparr>calls = [], ret_types = [RType 0], next_label_target = AssignmentTarget 0,
           blocks_created = 0\<rparr>)"
  by (simp add: BaseNonlocalControl_gen_break_def)

text \<open>
  C2 (amended). On the base frame, \<open>gen_break\<close> and \<open>gen_continue\<close> raise an assertion
  failure with the message ``break outside of loop'' or ``continue outside of loop'' and call
  nothing on the builder; \<open>gen_return(value)\<close> adds the op \<open>Return(value)\<close> to the builder,
  and nothing else.
\<close>

theorem base_frame_behaviour:
  "gen_break BaseNonlocalControl b line = Inl (AssertionError ''break outside of loop'', b)
   \<and> gen_continue BaseNonlocalControl b line
       = Inl (AssertionError ''continue outside of loop'', b)
   \<and> gen_return BaseNonlocalControl b v line
       = Inr (BaseNonlocalControl, b\<lparr>calls := calls b @ [Add (Return v)]\<rparr>)"
  by (simp add: BaseNonlocalControl_gen_break_def BaseNonlocalControl_gen_continue_def
      builder_defs)

text \<open>
  C3. \<open>GeneratorNonlocalControl.gen_return(value)\<close> makes exactly these calls, in this order:
  it adds \<open>LoadInt(-1)\<close> and assigns the result to the generator's \<open>next_label_target\<close> at
  the given line; pushes the error handler \<open>None\<close>; goes to and activates a new basic block;
  calls the primitive \<open>set_stop_iteration_value\<close> on \<open>[value]\<close> with
  \<open>NO_TRACEBACK_LINE_NO\<close>; adds \<open>Unreachable\<close>; pops the error handler. It raises nothing.
  Whatever the error-handler context was before, the active handler is \<open>None\<close> when the
  primitive is called (after the first four calls), and the context is the previous one again
  at the end.
\<close>

theorem generator_gen_return:
  "gen_return GeneratorNonlocalControl b v line
     = Inr (GeneratorNonlocalControl,
            b\<lparr>calls := calls b @
                 [Add (LoadInt (- 1)),
                  AssignTo (next_label_target b) (Result (length (calls b))) line,
                  PushErrorHandler None,
                  GotoAndActivate (BasicBlock (blocks_created b)),
                  PrimitiveOp set_stop_iteration_value [v] NO_TRACEBACK_LINE_NO,
                  Add Unreachable,
                  PopErrorHandler],
               blocks_created := Suc (blocks_created b)\<rparr>)
   \<and> handlers_after
         (take 4 (emitted b (snd (effect (gen_return GeneratorNonlocalControl b v line))))) hs
       = Some (None # hs)
   \<and> handlers_after
         (emitted b (snd (effect (gen_return GeneratorNonlocalControl b v line)))) hs
       = Some hs"
  by (simp add: builder_defs Let_def effect_def emitted_def)

subsection \<open>Loop frames\<close>

text \<open>
  C7. On a loop frame with targets \<open>continue_block\<close> and \<open>break_block\<close>, \<open>gen_break\<close> adds
  exactly one \<open>Goto(break_block)\<close> and \<open>gen_continue\<close> exactly one \<open>Goto(continue_block)\<close>,
  and neither raises. \<open>gen_return\<close> is the outer frame's \<open>gen_return\<close> on the same builder,
  value and line: it adds nothing of its own, and what it does to the builder and what it
  raises are the same for any other pair of targets.
\<close>

theorem loop_frame:
  "gen_break (LoopNonlocalControl outer continue_block break_block) b line
     = Inr (LoopNonlocalControl outer continue_block break_block,
            b\<lparr>calls := calls b @ [Add (Goto break_block)]\<rparr>)
   \<and> gen_continue (LoopNonlocalControl outer continue_block break_block) b line
       = Inr (LoopNonlocalControl outer continue_block break_block,
              b\<lparr>calls := calls b @ [Add (Goto continue_block)]\<rparr>)
   \<and> gen_return (LoopNonlocalControl outer continue_block break_block) b v line
       = with_outer (\<lambda>outer'. LoopNonlocalControl outer' continue_block break_block)
           (gen_return outer b v line)
   \<and> effect (gen_return (LoopNonlocalControl outer continue_block break_block) b v line)
       = effect (gen_return outer b v line)
   \<and> effect (gen_return (LoopNonlocalControl outer continue_block break_block) b v line)
       = effect (gen_return (LoopNonlocalControl outer continue_block' break_block') b v line)"
  by (simp add: builder_defs with_outer_def effect_def split: sum.splits prod.splits)

subsection \<open>Try/finally frames\<close>

text \<open>
  C8. On a try/finally frame, \<open>gen_break\<close> and \<open>gen_continue\<close> each make exactly one call on
  the builder, \<open>builder.error\<close> with the given line and the message
  ``break inside try/finally block is unimplemented'' or
  ``continue inside try/finally block is unimplemented''. They raise nothing, add no
  \<open>Goto\<close> or any other op, and leave the frame, with its \<open>ret_reg\<close>, as it was.
\<close>

theorem try_finally_break_continue:
  "gen_break (TryFinallyNonlocalControl target ret_reg) b line
     = Inr (TryFinallyNonlocalControl target ret_reg,
            b\<lparr>calls := calls b @
                 [Error ''break inside try/finally block is unimplemented'' line]\<rparr>)
   \<and> gen_continue (TryFinallyNonlocalControl target ret_reg) b line
       = Inr (TryFinallyNonlocalControl target ret_reg,
              b\<lparr>calls := calls b @
                   [Error ''continue inside try/finally block is unimplemented'' line]\<rparr>)"
  by (simp add: builder_defs)

lemma gen_returns_present:
  "gen_returns (TryFinallyNonlocalControl target (Some r)) b vs line
     = Inr (TryFinallyNonlocalControl target (Some r),
            b\<lparr>calls := calls b @ concat (map (\<lambda>x. [Add (Assign r x), Add (Goto target)]) vs)\<rparr>)"
proof (induction vs arbitrary: b)
  case Nil
  show ?case by simp
next
  case (Cons v vs)
  show ?case by (simp add: Cons.IH builder_defs)
qed

lemma no_alloc_in_stores:
  "filter is_alloc_temp (concat (map (\<lambda>x. [Add (Assign r x), Add (Goto target)]) vs)) = []"
  by (induction vs) simp_all

lemma no_return_in_stores:
  "Add (Return x) \<notin> set (concat (map (\<lambda>x. [Add (Assign r x), Add (Goto target)]) vs))"
  by (induction vs) simp_all

text \<open>
  C4. Take a try/finally frame whose \<open>ret_reg\<close> is still \<open>None\<close>, and a builder whose
  \<open>ret_types\<close> is not empty. Any number of \<open>gen_return\<close> calls on the frame, one at least,
  allocate one temporary in all, by one \<open>alloc_temp\<close> call made first, of the type
  \<open>ret_types[-1]\<close>; every call, the first included, then adds an \<open>Assign\<close> of its value to
  that same register and a \<open>Goto\<close> to the frame's target, and the frame holds the register
  afterwards. No \<open>Return\<close> op is added. On a frame that holds a register already, one
  \<open>gen_return\<close> adds the \<open>Assign\<close> to it and the \<open>Goto\<close>, and allocates nothing.
\<close>

theorem try_finally_gen_return:
  assumes "ret_types b \<noteq> []"
  shows "gen_returns (TryFinallyNonlocalControl target None) b (v # vs) line
     = Inr (TryFinallyNonlocalControl target (Some (Result (length (calls b)))),
            b\<lparr>calls := calls b @ AllocTemp (last (ret_types b))
                 # concat (map (\<lambda>x. [Add (Assign (Result (length (calls b))) x),
                                        Add (Goto target)]) (v # vs))\<rparr>)
   \<and> length (filter is_alloc_temp
        (emitted b (snd (effect
           (gen_returns (TryFinallyNonlocalControl target None) b (v # vs) line))))) = 1
   \<and> Add (Return x) \<notin> set (emitted b (snd (effect
           (gen_returns (TryFinallyNonlocalControl target None) b (v # vs) line))))
   \<and> gen_return (TryFinallyNonlocalControl target (Some r)) b v line
       = Inr (TryFinallyNonlocalControl target (Some r),
              b\<lparr>calls := calls b @ [Add (Assign r v), Add (Goto target)]\<rparr>)"
proof -
  obtain t ts where ts: "ret_types b = t # ts"
    using assms by (cases "ret_types b") auto
  have first: "gen_return (TryFinallyNonlocalControl target None) b v line
     = Inr (TryFinallyNonlocalControl target (Some (Result (length (calls b)))),
            b\<lparr>calls := calls b @
                 [AllocTemp (last (ret_types b)),
                  Add (Assign (Result (length (calls b))) v), Add (Goto target)]\<rparr>)"
    by (simp add: ts builder_defs Let_def)
  have all: "gen_returns (TryFinallyNonlocalControl target None) b (v # vs) line
     = Inr (TryFinallyNonlocalControl target (Some (Result (length (calls b)))),
            b\<lparr>calls := calls b @ AllocTemp (last (ret_types b))
                 # concat (map (\<lambda>x. [Add (Assign (Result (length (calls b))) x),
                                        Add (Goto target)]) (v # vs))\<rparr>)"
    by (simp only: gen_returns.simps first sum.case prod.case gen_returns_present) simp
  have present: "gen_return (TryFinallyNonlocalControl target (Some r)) b v line
       = Inr (TryFinallyNonlocalControl target (Some r),
              b\<lparr>calls := calls b @ [Add (Assign r v), Add (Goto target)]\<rparr>)"
    by (simp add: builder_defs)
  show ?thesis
    using present
    by (simp add: all effect_def emitted_def no_alloc_in_stores no_return_in_stores
        del: gen_returns.simps gen_return.simps)
qed

theorem try_finally_gen_return_witness:
  "ret_types \<lparr>calls = [], ret_types = [RType 0, RType 1],
              next_label_target = AssignmentTarget 0, blocks_created = 0\<rparr> \<noteq> []
   \<and> gen_returns (TryFinallyNonlocalControl (BasicBlock 7) None)
         \<lparr>calls = [], ret_types = [RType 0, RType 1],
          next_label_target = AssignmentTarget 0, blocks_created = 0\<rparr>
         [Given 1, Given 2] (Line 4)
       = Inr (TryFinallyNonlocalControl (BasicBlock 7) (Some (Result 0)),
              \<lparr>calls = [AllocTemp (RType 1),
                        Add (Assign (Result 0) (Given 1)), Add (Goto (BasicBlock 7)),
                        Add (Assign (Result 0) (Given 2)), Add (Goto (BasicBlock 7))],
               ret_types = [RType 0, RType 1],
               next_label_target = AssignmentTarget 0, blocks_created = 0\<rparr>)"
proof -
  let ?b = "\<lparr>calls = [], ret_types = [RType 0, RType 1],
             next_label_target = AssignmentTarget 0, blocks_created = 0\<rparr>"
  have h: "ret_types ?b \<noteq> []" by simp
  from try_finally_gen_return [OF h, of "BasicBlock 7" "Given 1" "[Given 2]" "Line 4"]
  show ?thesis by simp
qed

subsection \<open>Cleanup frames\<close>

lemma gen_cleanup_except:
  "gen_cleanup (ExceptNonlocalControl outer saved) b line
     = b\<lparr>calls := calls b @
            [Read saved, PrimitiveOp restore_exc_info_op [Result (length (calls b))] line]\<rparr>"
  by (simp add: builder_defs)

lemma gen_cleanup_finally_none:
  "gen_cleanup (FinallyNonlocalControl outer None saved) b line
     = b\<lparr>calls := calls b @
            [Add (Branch saved (BasicBlock (blocks_created b))
                    (BasicBlock (Suc (blocks_created b))) IS_ERROR),
             ActivateBlock (BasicBlock (Suc (blocks_created b))),
             PrimitiveOp restore_exc_info_op [saved] line,
             GotoAndActivate (BasicBlock (blocks_created b))],
          blocks_created := Suc (Suc (blocks_created b))\<rparr>"
  by (simp add: builder_defs Let_def)

lemma gen_cleanup_finally_some:
  "gen_cleanup (FinallyNonlocalControl outer (Some r) saved) b line
     = b\<lparr>calls := calls b @
            [Add (Branch r (BasicBlock (blocks_created b))
                    (BasicBlock (blocks_created b)) IS_ERROR),
             ActivateBlock (BasicBlock (blocks_created b)),
             Add (Branch saved (BasicBlock (Suc (blocks_created b)))
                    (BasicBlock (Suc (Suc (blocks_created b)))) IS_ERROR),
             ActivateBlock (BasicBlock (Suc (Suc (blocks_created b)))),
             PrimitiveOp restore_exc_info_op [saved] line,
             GotoAndActivate (BasicBlock (Suc (blocks_created b)))],
          blocks_created := Suc (Suc (Suc (blocks_created b)))\<rparr>"
  by (simp add: builder_defs Let_def)

lemma calls_gen_cleanup:
  "calls (gen_cleanup (stack_on w outer) b line)
     = calls b @ emitted b (gen_cleanup (stack_on w outer) b line)"
proof (cases w)
  case (ExceptCleanup saved)
  then show ?thesis by (simp add: gen_cleanup_except emitted_def del: gen_cleanup.simps)
next
  case (FinallyCleanup ret_reg saved)
  then show ?thesis
    by (cases ret_reg)
      (simp_all add: gen_cleanup_finally_none gen_cleanup_finally_some emitted_def
        del: gen_cleanup.simps)
qed

lemma one_restore_gen_cleanup:
  "length (filter is_restore (emitted b (gen_cleanup (stack_on w outer) b line))) = 1"
proof (cases w)
  case (ExceptCleanup saved)
  then show ?thesis by (simp add: gen_cleanup_except emitted_def del: gen_cleanup.simps)
next
  case (FinallyCleanup ret_reg saved)
  then show ?thesis
    by (cases ret_reg)
      (simp_all add: gen_cleanup_finally_none gen_cleanup_finally_some emitted_def
        del: gen_cleanup.simps)
qed

lemma with_outer_with_outer:
  "with_outer f (with_outer g r) = with_outer (\<lambda>x. f (g x)) r"
  by (simp add: with_outer_def split: sum.splits prod.splits)

lemma with_outer_id: "with_outer (\<lambda>x. x) r = r"
  by (simp add: with_outer_def split: sum.splits prod.splits)

lemma wrap_Cons_fun: "wrap (w # ws) = (\<lambda>x. stack_on w (wrap ws x))"
  by (rule ext) simp

lemma gen_break_stack_on:
  "gen_break (stack_on w outer) b line
     = with_outer (stack_on w) (gen_break outer (gen_cleanup (stack_on w outer) b line) line)"
  by (cases w) (simp_all add: with_outer_def split: sum.splits prod.splits)

lemma gen_continue_stack_on:
  "gen_continue (stack_on w outer) b line
     = with_outer (stack_on w) (gen_continue outer (gen_cleanup (stack_on w outer) b line) line)"
  by (cases w) (simp_all add: with_outer_def split: sum.splits prod.splits)

lemma gen_return_stack_on:
  "gen_return (stack_on w outer) b v line
     = with_outer (stack_on w) (gen_return outer (gen_cleanup (stack_on w outer) b line) v line)"
  by (cases w) (simp_all add: with_outer_def split: sum.splits prod.splits)

lemma wrap_Nil_fun: "wrap [] = (\<lambda>x. x)"
  by (rule ext) simp

lemma gen_break_wrap:
  "gen_break (wrap ws inner) b line
     = with_outer (wrap ws) (gen_break inner (cleanups ws inner b line) line)"
proof (induction ws arbitrary: b)
  case Nil
  show ?case by (simp add: wrap_Nil_fun with_outer_id)
next
  case (Cons w ws)
  have "gen_break (wrap (w # ws) inner) b line
          = with_outer (stack_on w)
              (gen_break (wrap ws inner) (gen_cleanup (wrap (w # ws) inner) b line) line)"
    by (simp add: gen_break_stack_on)
  also have "\<dots> = with_outer (stack_on w)
              (with_outer (wrap ws)
                 (gen_break inner (cleanups (w # ws) inner b line) line))"
    by (simp add: Cons.IH)
  also have "\<dots> = with_outer (wrap (w # ws))
                 (gen_break inner (cleanups (w # ws) inner b line) line)"
    by (simp only: with_outer_with_outer wrap_Cons_fun)
  finally show ?case .
qed

lemma gen_continue_wrap:
  "gen_continue (wrap ws inner) b line
     = with_outer (wrap ws) (gen_continue inner (cleanups ws inner b line) line)"
proof (induction ws arbitrary: b)
  case Nil
  show ?case by (simp add: wrap_Nil_fun with_outer_id)
next
  case (Cons w ws)
  have "gen_continue (wrap (w # ws) inner) b line
          = with_outer (stack_on w)
              (gen_continue (wrap ws inner) (gen_cleanup (wrap (w # ws) inner) b line) line)"
    by (simp add: gen_continue_stack_on)
  also have "\<dots> = with_outer (stack_on w)
              (with_outer (wrap ws)
                 (gen_continue inner (cleanups (w # ws) inner b line) line))"
    by (simp add: Cons.IH)
  also have "\<dots> = with_outer (wrap (w # ws))
                 (gen_continue inner (cleanups (w # ws) inner b line) line)"
    by (simp only: with_outer_with_outer wrap_Cons_fun)
  finally show ?case .
qed

lemma gen_return_wrap:
  "gen_return (wrap ws inner) b v line
     = with_outer (wrap ws) (gen_return inner (cleanups ws inner b line) v line)"
proof (induction ws arbitrary: b)
  case Nil
  show ?case by (simp add: wrap_Nil_fun with_outer_id)
next
  case (Cons w ws)
  have "gen_return (wrap (w # ws) inner) b v line
          = with_outer (stack_on w)
              (gen_return (wrap ws inner) (gen_cleanup (wrap (w # ws) inner) b line) v line)"
    by (simp add: gen_return_stack_on)
  also have "\<dots> = with_outer (stack_on w)
              (with_outer (wrap ws)
                 (gen_return inner (cleanups (w # ws) inner b line) v line))"
    by (simp add: Cons.IH)
  also have "\<dots> = with_outer (wrap (w # ws))
                 (gen_return inner (cleanups (w # ws) inner b line) v line)"
    by (simp only: with_outer_with_outer wrap_Cons_fun)
  finally show ?case .
qed

lemma calls_cleanups:
  "calls (cleanups ws inner b line) = calls b @ concat (cleanup_log ws inner b line)"
proof (induction ws arbitrary: b)
  case Nil
  show ?case by simp
next
  case (Cons w ws)
  have "calls (gen_cleanup (stack_on w (wrap ws inner)) b line)
          = calls b @ emitted b (gen_cleanup (stack_on w (wrap ws inner)) b line)"
    by (rule calls_gen_cleanup)
  then show ?case by (simp add: Cons.IH)
qed

lemma length_cleanup_log: "length (cleanup_log ws inner b line) = length ws"
  by (induction ws arbitrary: b) simp_all

lemma restores_cleanup_log:
  "map (\<lambda>seg. length (filter is_restore seg)) (cleanup_log ws inner b line)
     = replicate (length ws) 1"
proof (induction ws arbitrary: b)
  case Nil
  show ?case by simp
next
  case (Cons w ws)
  have "length (filter is_restore (emitted b (gen_cleanup (stack_on w (wrap ws inner)) b line))) = 1"
    by (rule one_restore_gen_cleanup)
  then show ?case by (simp add: Cons.IH)
qed

text \<open>
  C1. A frame of either cleanup class over any outer frame does each of \<open>gen_break\<close>,
  \<open>gen_continue\<close> and \<open>gen_return\<close> by running its own \<open>gen_cleanup\<close> and then the same
  method of the outer frame on the builder so left. Hence, for a stack \<open>ws\<close> of cleanup frames
  over any frame \<open>inner\<close>, each of the three methods is the \<open>inner\<close> frame's method run after
  the cleanups of the stack, innermost first: the calls made are, in order, what each frame's
  \<open>gen_cleanup\<close> emitted, one portion for each frame, each portion holding exactly one call
  of the restore primitive, and then whatever \<open>inner\<close> does. Over the base frame,
  \<open>gen_return\<close> ends with the op \<open>Return(value)\<close>.
\<close>

theorem cleanup_chain:
  "gen_break (stack_on w outer) b line
     = with_outer (stack_on w) (gen_break outer (gen_cleanup (stack_on w outer) b line) line)
   \<and> gen_continue (stack_on w outer) b line
       = with_outer (stack_on w)
           (gen_continue outer (gen_cleanup (stack_on w outer) b line) line)
   \<and> gen_return (stack_on w outer) b v line
       = with_outer (stack_on w)
           (gen_return outer (gen_cleanup (stack_on w outer) b line) v line)
   \<and> gen_break (wrap ws inner) b line
       = with_outer (wrap ws) (gen_break inner (cleanups ws inner b line) line)
   \<and> gen_continue (wrap ws inner) b line
       = with_outer (wrap ws) (gen_continue inner (cleanups ws inner b line) line)
   \<and> gen_return (wrap ws inner) b v line
       = with_outer (wrap ws) (gen_return inner (cleanups ws inner b line) v line)
   \<and> calls (cleanups ws inner b line) = calls b @ concat (cleanup_log ws inner b line)
   \<and> length (cleanup_log ws inner b line) = length ws
   \<and> map (\<lambda>seg. length (filter is_restore seg)) (cleanup_log ws inner b line)
       = replicate (length ws) 1
   \<and> calls (snd (effect (gen_return (wrap ws BaseNonlocalControl) b v line)))
       = calls b @ concat (cleanup_log ws BaseNonlocalControl b line) @ [Add (Return v)]"
proof -
  have "calls (snd (effect (gen_return (wrap ws BaseNonlocalControl) b v line)))
          = calls (cleanups ws BaseNonlocalControl b line) @ [Add (Return v)]"
    by (simp add: gen_return_wrap with_outer_def effect_def builder_defs)
  then show ?thesis
    using gen_break_stack_on gen_continue_stack_on gen_return_stack_on
      gen_break_wrap gen_continue_wrap gen_return_wrap
      calls_cleanups length_cleanup_log restores_cleanup_log
    by simp
qed

text \<open>
  C9. \<open>ExceptNonlocalControl.gen_cleanup\<close> makes two calls: \<open>builder.read(self.saved)\<close>, and
  the primitive \<open>restore_exc_info_op\<close> on the value that read returned, at the given line:
  one read and one restore. Each of \<open>gen_break\<close>, \<open>gen_continue\<close> and \<open>gen_return\<close> on the
  frame makes these two calls and then runs the outer frame's method; the frame has the same
  \<open>saved\<close> afterwards, so every later exit through it reads the same \<open>saved\<close>, once.
\<close>

theorem except_gen_cleanup:
  "gen_cleanup (ExceptNonlocalControl outer saved) b line
     = b\<lparr>calls := calls b @
            [Read saved, PrimitiveOp restore_exc_info_op [Result (length (calls b))] line]\<rparr>
   \<and> length (filter is_restore
        (emitted b (gen_cleanup (ExceptNonlocalControl outer saved) b line))) = 1
   \<and> filter is_read (emitted b (gen_cleanup (ExceptNonlocalControl outer saved) b line))
       = [Read saved]
   \<and> gen_break (ExceptNonlocalControl outer saved) b line
       = with_outer (\<lambda>outer'. ExceptNonlocalControl outer' saved)
           (gen_break outer
              (b\<lparr>calls := calls b @
                    [Read saved,
                     PrimitiveOp restore_exc_info_op [Result (length (calls b))] line]\<rparr>)
              line)
   \<and> gen_continue (ExceptNonlocalControl outer saved) b line
       = with_outer (\<lambda>outer'. ExceptNonlocalControl outer' saved)
           (gen_continue outer
              (b\<lparr>calls := calls b @
                    [Read saved,
                     PrimitiveOp restore_exc_info_op [Result (length (calls b))] line]\<rparr>)
              line)
   \<and> gen_return (ExceptNonlocalControl outer saved) b v line
       = with_outer (\<lambda>outer'. ExceptNonlocalControl outer' saved)
           (gen_return outer
              (b\<lparr>calls := calls b @
                    [Read saved,
                     PrimitiveOp restore_exc_info_op [Result (length (calls b))] line]\<rparr>)
              v line)"
  by (simp add: builder_defs emitted_def)

text \<open>
  C5 (as stated, refuted). The claim has the not-error arm of the branch on the pending
  return register release the register before it reaches the continuation block, and the
  error arm reach that block directly. On a frame with the register \<open>Given 0\<close> and the saved
  value \<open>Given 1\<close>, the branch on \<open>Given 0\<close> has one and the same block for both arms, that
  block is activated by the very next call, and none of the six calls made releases anything.
\<close>

theorem finally_release_counterexample:
  "gen_cleanup (FinallyNonlocalControl BaseNonlocalControl (Some (Given 0)) (Given 1))
     \<lparr>calls = [], ret_types = [RType 0], next_label_target = AssignmentTarget 0,
      blocks_created = 0\<rparr> (Line 5)
   = \<lparr>calls = [Add (Branch (Given 0) (BasicBlock 0) (BasicBlock 0) IS_ERROR),
               ActivateBlock (BasicBlock 0),
               Add (Branch (Given 1) (BasicBlock 1) (BasicBlock 2) IS_ERROR),
               ActivateBlock (BasicBlock 2),
               PrimitiveOp restore_exc_info_op [Given 1] (Line 5),
               GotoAndActivate (BasicBlock 1)],
      ret_types = [RType 0], next_label_target = AssignmentTarget 0, blocks_created = 3\<rparr>"
  by (simp add: builder_defs Let_def)

text \<open>
  C5 (amended). With a pending return register, \<open>FinallyNonlocalControl.gen_cleanup\<close> first
  adds a branch on the register's is-error test whose two arms are one new block, and
  activates that block; it emits no release. Then, with or without the register, it adds a
  branch on the saved value's is-error test whose error arm is a new target block and whose
  other arm is a new cleanup block, activates the cleanup block, calls the primitive
  \<open>restore_exc_info_op\<close> on the saved value at the given line, and goes to and activates the
  target block: the restore is on the not-error arm only.
\<close>

theorem finally_gen_cleanup:
  "gen_cleanup (FinallyNonlocalControl outer (Some r) saved) b line
     = b\<lparr>calls := calls b @
            [Add (Branch r (BasicBlock (blocks_created b))
                    (BasicBlock (blocks_created b)) IS_ERROR),
             ActivateBlock (BasicBlock (blocks_created b)),
             Add (Branch saved (BasicBlock (Suc (blocks_created b)))
                    (BasicBlock (Suc (Suc (blocks_created b)))) IS_ERROR),
             ActivateBlock (BasicBlock (Suc (Suc (blocks_created b)))),
             PrimitiveOp restore_exc_info_op [saved] line,
             GotoAndActivate (BasicBlock (Suc (blocks_created b)))],
          blocks_created := Suc (Suc (Suc (blocks_created b)))\<rparr>
   \<and> gen_cleanup (FinallyNonlocalControl outer None saved) b line
       = b\<lparr>calls := calls b @
              [Add (Branch saved (BasicBlock (blocks_created b))
                      (BasicBlock (Suc (blocks_created b))) IS_ERROR),
               ActivateBlock (BasicBlock (Suc (blocks_created b))),
               PrimitiveOp restore_exc_info_op [saved] line,
               GotoAndActivate (BasicBlock (blocks_created b))],
            blocks_created := Suc (Suc (blocks_created b))\<rparr>"
  by (simp add: builder_defs Let_def)

text \<open>
  C6. Let \<open>r\<close> be a register other than the saved value. Without a pending return register,
  \<open>FinallyNonlocalControl.gen_cleanup\<close> adds one branch only, the one on the saved value, and
  no branch on \<open>r\<close>. With the pending return register \<open>r\<close> it adds exactly one branch that
  tests \<open>r\<close> for the error value, two branches in all, and the branch on \<open>r\<close> is the first
  call it makes, before anything else it does.
\<close>

theorem finally_release_branch:
  assumes "r \<noteq> saved"
  shows "filter is_branch (emitted b (gen_cleanup (FinallyNonlocalControl outer None saved) b line))
       = [Add (Branch saved (BasicBlock (blocks_created b))
                 (BasicBlock (Suc (blocks_created b))) IS_ERROR)]
   \<and> filter (is_error_branch_on r)
        (emitted b (gen_cleanup (FinallyNonlocalControl outer None saved) b line)) = []
   \<and> filter (is_error_branch_on r)
        (emitted b (gen_cleanup (FinallyNonlocalControl outer (Some r) saved) b line))
       = [Add (Branch r (BasicBlock (blocks_created b)) (BasicBlock (blocks_created b)) IS_ERROR)]
   \<and> length (filter is_branch
        (emitted b (gen_cleanup (FinallyNonlocalControl outer (Some r) saved) b line))) = 2
   \<and> take 1 (emitted b (gen_cleanup (FinallyNonlocalControl outer (Some r) saved) b line))
       = [Add (Branch r (BasicBlock (blocks_created b)) (BasicBlock (blocks_created b)) IS_ERROR)]"
  using assms
  by (simp add: gen_cleanup_finally_none gen_cleanup_finally_some emitted_def
      del: gen_cleanup.simps)

theorem finally_release_branch_witness:
  "Given 0 \<noteq> Given 1
   \<and> filter (is_error_branch_on (Given 0))
        (emitted
           \<lparr>calls = [Add (Goto (BasicBlock 0))], ret_types = [RType 0],
            next_label_target = AssignmentTarget 0, blocks_created = 4\<rparr>
           (gen_cleanup (FinallyNonlocalControl BaseNonlocalControl (Some (Given 0)) (Given 1))
              \<lparr>calls = [Add (Goto (BasicBlock 0))], ret_types = [RType 0],
               next_label_target = AssignmentTarget 0, blocks_created = 4\<rparr> (Line 9)))
       = [Add (Branch (Given 0) (BasicBlock 4) (BasicBlock 4) IS_ERROR)]"
proof -
  have h: "Given 0 \<noteq> Given 1" by simp
  from finally_release_branch [OF h, of
      "\<lparr>calls = [Add (Goto (BasicBlock 0))], ret_types = [RType 0],
        next_label_target = AssignmentTarget 0, blocks_created = 4\<rparr>"
      BaseNonlocalControl "Line 9"]
  show ?thesis by simp
qed

end
